theory Spec2Isabelle
  imports Complex_Main
begin

section \<open>The weather route of TripMate\<close>

text \<open>
  The program is the route handler for \<^verbatim>\<open>GET /api/v1/weather\<close> that
  \<^verbatim>\<open>migrate_weather_complete.py\<close> writes into the server's route file (the string
  \<^verbatim>\<open>new_weather_route\<close>, lines 30 to 220). The handler is TypeScript; its request,
  its environment and the four services it calls are the inputs of the model.

  Conventions of the embedding:
  \<^item> a JavaScript number read from a JSON body is a rational (\<^typ>\<open>rat\<close>): arithmetic is
    exact, so the rounding error of doubles is not modelled; the numbers of the query string,
    which \<^verbatim>\<open>Number(...)\<close> may turn into \<^verbatim>\<open>NaN\<close>, are of type \<open>number\<close>;
  \<^item> a string is a list of 8-bit code units;
  \<^item> a JSON body is modelled at the members the handler reads: a member that the handler
    reads through \<^verbatim>\<open>?.\<close>, \<^verbatim>\<open>??\<close> or \<^verbatim>\<open>||\<close> is optional, and, where present, has the
    type the handler uses it at;
  \<^item> an object of the response whose members vary from path to path is a record of
    optional members (\<open>None\<close>: the member is absent);
  \<^item> every outbound call is appended to a trace, returned with the result.
\<close>

subsection \<open>JavaScript helpers\<close>

datatype number = Finite rat | NaN | PosInfinity | NegInfinity

text \<open>\<^verbatim>\<open>Number.isFinite\<close>\<close>

fun isFinite :: "number \<Rightarrow> bool" where
  "isFinite (Finite _) = True"
| "isFinite _ = False"

text \<open>\<^verbatim>\<open>Math.round\<close>: the nearest integer, a tie going up.\<close>

definition Math_round :: "rat \<Rightarrow> rat" where
  "Math_round x = of_int \<lfloor>x + 1 / 2\<rfloor>"

text \<open>\<^verbatim>\<open>a ?? b\<close> on an optional member.\<close>

definition nullish :: "'a option \<Rightarrow> 'a \<Rightarrow> 'a" where
  "nullish a b = (case a of None \<Rightarrow> b | Some v \<Rightarrow> v)"

text \<open>\<^verbatim>\<open>a || b\<close> where \<open>a\<close> is an optional string: the empty string is falsy.\<close>

definition or_string :: "string option \<Rightarrow> string \<Rightarrow> string" where
  "or_string a b = (case a of None \<Rightarrow> b | Some s \<Rightarrow> if s = [] then b else s)"

text \<open>\<^verbatim>\<open>a || b\<close> where \<open>a\<close> is an optional number: zero is falsy.\<close>

definition or_number :: "rat option \<Rightarrow> rat \<Rightarrow> rat" where
  "or_number a b = (case a of None \<Rightarrow> b | Some v \<Rightarrow> if v = 0 then b else v)"

text \<open>\<^verbatim>\<open>xs[i]\<close> on an array: \<^verbatim>\<open>undefined\<close> out of range.\<close>

definition at_index :: "'a list \<Rightarrow> nat \<Rightarrow> 'a option" where
  "at_index xs i = (if i < length xs then Some (xs ! i) else None)"

text \<open>
  \<^verbatim>\<open>String.prototype.trim\<close>, on the white space that fits a code unit below 256: tab, line
  feed, vertical tab, form feed, carriage return, space and no-break space.
\<close>

definition isSpace :: "char \<Rightarrow> bool" where
  "isSpace c = ((of_char c :: nat) \<in> {9, 10, 11, 12, 13, 32, 160})"

definition trim :: "string \<Rightarrow> string" where
  "trim s = rev (dropWhile isSpace (rev (dropWhile isSpace s)))"

text \<open>\<^verbatim>\<open>String.prototype.toLowerCase\<close>, on the letters A to Z.\<close>

definition lowerChar :: "char \<Rightarrow> char" where
  "lowerChar c = (let n = (of_char c :: nat) in if 65 \<le> n \<and> n \<le> 90 then char_of (n + 32) else c)"

definition toLowerCase :: "string \<Rightarrow> string" where
  "toLowerCase s = map lowerChar s"

text \<open>\<^verbatim>\<open>String.prototype.includes\<close>\<close>

fun str_includes :: "string \<Rightarrow> string \<Rightarrow> bool" where
  "str_includes [] sub = (sub = [])"
| "str_includes (c # cs) sub = (take (length sub) (c # cs) = sub \<or> str_includes cs sub)"

text \<open>The decimal digits of a natural number, as a template literal prints it.\<close>

fun show_nat :: "nat \<Rightarrow> string" where
  "show_nat n = (if n < 10 then [char_of (48 + n)] else show_nat (n div 10) @ [char_of (48 + n mod 10)])"

declare show_nat.simps [simp del]

subsection \<open>The request, the environment and the services\<close>

text \<open>
  The query string after \<^verbatim>\<open>Number(req.query.lat)\<close> and \<^verbatim>\<open>Number(req.query.lon)\<close>; the
  members \<^verbatim>\<open>city\<close>, \<^verbatim>\<open>location\<close> and \<^verbatim>\<open>units\<close> are strings or absent.
\<close>

record WeatherQuery =
  lat :: number
  lon :: number
  city :: "string option"
  location :: "string option"
  units :: "string option"

text \<open>
  The result of \<^verbatim>\<open>fetch\<close>: \<open>json = None\<close> when \<^verbatim>\<open>res.json()\<close> rejects, or gives
  \<^verbatim>\<open>null\<close>, on which the first member access of the handler throws.
\<close>

record 'a Response =
  ok :: bool
  json :: "'a option"

text \<open>The body of the current-conditions endpoint.\<close>

record CurrentData =
  temperature_degrees :: "rat option"
  weatherCondition_description_text :: "string option"
  weatherCondition_type :: "string option"
  relativeHumidity :: "rat option"
  wind_speed_value :: "rat option"
  wind_direction_degrees :: "rat option"
  wind_direction_cardinal :: "string option"

text \<open>One entry of \<^verbatim>\<open>forecastDays\<close> in the body of the forecast endpoint.\<close>

record DayData =
  maxTemperature_degrees :: "rat option"
  minTemperature_degrees :: "rat option"
  daytimeForecast_description_text :: "string option"
  daytimeForecast_type :: "string option"

record ForecastData =
  forecastDays :: "DayData list option"

text \<open>
  One entry of \<^verbatim>\<open>results\<close> in the body of the geocoding endpoint: \<open>None\<close> when
  \<^verbatim>\<open>geometry\<close> or \<^verbatim>\<open>geometry.location\<close> is missing, so that reading it throws.
\<close>

record GeocodeResult =
  geometry_location :: "(rat \<times> rat) option"

record GeocodeData =
  results :: "GeocodeResult list option"

subsection \<open>The response\<close>

record CurrentConditions =
  temperature :: "rat option"
  tempMin :: "rat option"
  tempMax :: "rat option"
  condition :: "string option"
  humidity :: "rat option"
  windSpeed :: "rat option"
  windDeg :: "rat option"
  windDir :: "string option"
  icon :: "string option"

text \<open>
  An entry of \<^verbatim>\<open>forecast\<close>; its members \<^verbatim>\<open>condition\<close> and \<^verbatim>\<open>icon\<close> are
  \<open>day_condition\<close> and \<open>day_icon\<close> here.
\<close>

record ForecastDay =
  day :: string
  high :: rat
  low :: rat
  day_condition :: string
  day_icon :: "string option"

text \<open>The arrays \<^verbatim>\<open>hourly\<close> and \<^verbatim>\<open>alerts\<close> are only ever written empty by the handler.\<close>

record WeatherResult =
  current :: CurrentConditions
  forecast :: "ForecastDay list"
  hourly :: "string list option"
  alerts :: "string list"
  recommendations :: "string list"
  source :: "string option"
  error :: "string option"

record HttpResponse =
  status :: nat
  body :: WeatherResult

text \<open>
  The environment of one request: the credential, the month of \<^verbatim>\<open>new Date()\<close> and the
  four services, each a function of what the handler puts into the request.
  \<^verbatim>\<open>fetch\<close> rejecting is \<open>None\<close>; \<^verbatim>\<open>ai.weather\<close> rejecting is \<open>None\<close>.
\<close>

record World =
  GOOGLE_API_KEY :: "string option"
  getMonth :: nat
  currentConditions :: "number \<Rightarrow> number \<Rightarrow> CurrentData Response option"
  forecastLookup :: "number \<Rightarrow> number \<Rightarrow> ForecastData Response option"
  geocode :: "string \<Rightarrow> GeocodeData Response option"
  ai_weather :: "string \<Rightarrow> WeatherResult option"

datatype Call =
  FetchCurrent number number
| FetchForecast number number
| FetchGeocode string
| AiWeather string

datatype exception = AiWeatherRejected


subsection \<open>The handler\<close>

text \<open>\<^verbatim>\<open>iconMap\<close>, lines 49 to 61.\<close>

definition iconMap :: "string \<Rightarrow> string option" where
  "iconMap = map_of
     [(''CLEAR'', ''fas fa-sun''),
      (''PARTLY_CLOUDY'', ''fas fa-cloud-sun''),
      (''CLOUDY'', ''fas fa-cloud''),
      (''RAIN'', ''fas fa-cloud-rain''),
      (''SCATTERED_SHOWERS'', ''fas fa-cloud-rain''),
      (''DRIZZLE'', ''fas fa-cloud-rain''),
      (''THUNDERSTORM'', ''fas fa-bolt''),
      (''SNOW'', ''fas fa-snowflake''),
      (''MIST'', ''fas fa-smog''),
      (''FOG'', ''fas fa-smog''),
      (''WIND'', ''fas fa-wind'')]"

text \<open>
  The label of day \<open>i\<close>: \<^verbatim>\<open>i === 0 ? 'Today' : i === 1 ? 'Tomorrow' : `Day ${i + 1}`\<close>, the
  same expression at lines 109, 159 and 207.
\<close>

definition dayLabel :: "nat \<Rightarrow> string" where
  "dayLabel i = (if i = 0 then ''Today'' else if i = 1 then ''Tomorrow'' else ''Day '' @ show_nat (i + 1))"

text \<open>
  \<^verbatim>\<open>units === 'metric' ? Math.round(t) : Math.round(t * 9/5 + 32)\<close>, the same expression
  at lines 86, 110 and 111.
\<close>

definition inUnits :: "string \<Rightarrow> rat \<Rightarrow> rat" where
  "inUnits units' t = (if units' = ''metric'' then Math_round t else Math_round (t * 9 / 5 + 32))"

text \<open>Lines 85 to 136: the result built from the two bodies.\<close>

definition weatherData :: "string \<Rightarrow> CurrentData \<Rightarrow> ForecastData \<Rightarrow> WeatherResult" where
  "weatherData units' currentData forecastData =
     (let tempCelsius = nullish (temperature_degrees currentData) 22;
          temperature' = inUnits units' tempCelsius;
          condition' = or_string (weatherCondition_description_text currentData) ''Clear'';
          conditionType = or_string (weatherCondition_type currentData) ''CLEAR'';
          current0 =
            \<lparr>temperature = Some temperature',
             tempMin = Some (temperature' - 5),
             tempMax = Some temperature',
             condition = Some condition',
             humidity = Some (nullish (relativeHumidity currentData) 60),
             windSpeed = Some (Math_round (nullish (wind_speed_value currentData) 10)),
             windDeg = Some (nullish (wind_direction_degrees currentData) 0),
             windDir = Some (or_string (wind_direction_cardinal currentData) ''N''),
             icon = Some (or_string (iconMap conditionType) ''fas fa-cloud'')\<rparr>;
          forecast' =
            map (\<lambda>(i, day').
                  let maxTemp = nullish (maxTemperature_degrees day') temperature';
                      minTemp = nullish (minTemperature_degrees day') (temperature' - 5);
                      dayCondition = or_string (daytimeForecast_description_text day') ''Clear'';
                      dayType = or_string (daytimeForecast_type day') ''CLEAR''
                  in \<lparr>day = dayLabel i,
                      high = inUnits units' maxTemp,
                      low = inUnits units' minTemp,
                      day_condition = dayCondition,
                      day_icon = Some (or_string (iconMap dayType) ''fas fa-cloud'')\<rparr>)
              (enumerate 0 (take 7 (nullish (forecastDays forecastData) [])));
          current' =
            (case forecast' of
               [] \<Rightarrow> current0
             | first # _ \<Rightarrow> current0\<lparr>tempMax := Some (high first), tempMin := Some (low first)\<rparr>);
          recommendations' =
            (if temperature' \<ge> 30 then [''Stay hydrated''] else []) @
            (if str_includes (toLowerCase condition') ''rain'' \<or> str_includes (toLowerCase condition') ''shower''
             then [''Carry a raincoat''] else []) @
            [''Use sunscreen during midday'']
      in \<lparr>current = current',
          forecast = forecast',
          hourly = Some [],
          alerts = [],
          recommendations = recommendations',
          source = Some ''google-weather'',
          error = None\<rparr>)"

text \<open>
  \<^verbatim>\<open>getWeatherData\<close>, lines 63 to 141: \<open>None\<close> is its \<^verbatim>\<open>null\<close>. A failed fetch, a
  status that is not ok and a body that cannot be read all end there, the last two through
  its \<^verbatim>\<open>catch\<close>. The forecast is only requested after the current conditions were read.
\<close>

definition getWeatherData :: "World \<Rightarrow> string \<Rightarrow> number \<Rightarrow> number \<Rightarrow> WeatherResult option \<times> Call list" where
  "getWeatherData w units' latNum lonNum =
     (case currentConditions w latNum lonNum of
        None \<Rightarrow> (None, [FetchCurrent latNum lonNum])
      | Some currentRes \<Rightarrow>
          if \<not> ok currentRes then (None, [FetchCurrent latNum lonNum])
          else (case json currentRes of
             None \<Rightarrow> (None, [FetchCurrent latNum lonNum])
           | Some currentData \<Rightarrow>
               (case forecastLookup w latNum lonNum of
                  None \<Rightarrow> (None, [FetchCurrent latNum lonNum, FetchForecast latNum lonNum])
                | Some forecastRes \<Rightarrow>
                    if \<not> ok forecastRes
                    then (None, [FetchCurrent latNum lonNum, FetchForecast latNum lonNum])
                    else (case json forecastRes of
                       None \<Rightarrow> (None, [FetchCurrent latNum lonNum, FetchForecast latNum lonNum])
                     | Some forecastData \<Rightarrow>
                         (Some (weatherData units' currentData forecastData),
                          [FetchCurrent latNum lonNum, FetchForecast latNum lonNum])))))"

text \<open>The table of line 150 and of line 204, read at the month: \<^verbatim>\<open>[...][month] || 28\<close>.\<close>

definition baseTemp :: "nat \<Rightarrow> rat" where
  "baseTemp month = or_number (at_index [20, 22, 26, 30, 32, 33, 32, 31, 30, 28, 24, 21] month) 28"

text \<open>Lines 148 to 170: the result sent when a coordinate query got no provider data.\<close>

definition fallback_route :: "nat \<Rightarrow> WeatherResult" where
  "fallback_route month =
     (let b = baseTemp month;
          current' =
            \<lparr>temperature = Some (Math_round b),
             tempMin = None,
             tempMax = None,
             condition = Some (if b \<ge> 30 then ''Sunny'' else if b \<ge> 25 then ''Partly Cloudy'' else ''Cloudy''),
             humidity = Some 60,
             windSpeed = Some 10,
             windDeg = None,
             windDir = None,
             icon = Some ''fas fa-cloud-sun''\<rparr>;
          forecast' =
            map (\<lambda>i. \<lparr>day = dayLabel i,
                      high = Math_round (b + of_nat (i mod 3) - 1),
                      low = Math_round (b - 5 + of_nat (i mod 2)),
                      day_condition =
                        (if i mod 4 = 0 then ''Sunny'' else if i mod 4 = 1 then ''Partly Cloudy''
                         else if i mod 4 = 2 then ''Cloudy'' else ''Rain''),
                      day_icon = Some ''fas fa-cloud-sun''\<rparr>) [0..<7];
          recommendations' =
            [''Carry light cotton clothing'', ''Stay hydrated'', ''Use sunscreen during midday'']
      in \<lparr>current = current',
          forecast = forecast',
          hourly = None,
          alerts = [],
          recommendations = recommendations',
          source = Some ''fallback-route'',
          error = None\<rparr>)"

text \<open>Lines 202 to 218: the result sent by the \<^verbatim>\<open>catch\<close> of the whole handler.\<close>

definition fallback_catch :: "nat \<Rightarrow> WeatherResult" where
  "fallback_catch month =
     (let b = baseTemp month;
          current' =
            \<lparr>temperature = Some (Math_round b),
             tempMin = None,
             tempMax = None,
             condition = Some (if b \<ge> 30 then ''Sunny'' else if b \<ge> 25 then ''Partly Cloudy'' else ''Cloudy''),
             humidity = Some 60,
             windSpeed = Some 10,
             windDeg = None,
             windDir = None,
             icon = None\<rparr>;
          forecast' =
            map (\<lambda>i. \<lparr>day = dayLabel i,
                      high = Math_round (b + of_nat (i mod 3) - 1),
                      low = Math_round (b - 5 + of_nat (i mod 2)),
                      day_condition =
                        (if i mod 4 = 0 then ''Sunny'' else if i mod 4 = 1 then ''Partly Cloudy''
                         else if i mod 4 = 2 then ''Cloudy'' else ''Rain''),
                      day_icon = None\<rparr>) [0..<7];
          recommendations' =
            [''Carry light cotton clothing'', ''Stay hydrated'', ''Use sunscreen during midday'',
             ''Check local advisories for heat or rain'']
      in \<lparr>current = current',
          forecast = forecast',
          hourly = None,
          alerts = [],
          recommendations = recommendations',
          source = Some ''fallback-route'',
          error = None\<rparr>)"

text \<open>\<^verbatim>\<open>current: {}\<close>, of the two error bodies.\<close>

definition emptyCurrent :: CurrentConditions where
  "emptyCurrent =
     \<lparr>temperature = None, tempMin = None, tempMax = None, condition = None, humidity = None,
      windSpeed = None, windDeg = None, windDir = None, icon = None\<rparr>"

text \<open>Lines 40 to 46: the response sent when the credential is missing.\<close>

definition notConfigured :: HttpResponse where
  "notConfigured =
     \<lparr>status = 503,
      body = \<lparr>current = emptyCurrent, forecast = [], hourly = None, alerts = [],
              recommendations = [], source = None,
              error = Some ''Weather service not configured''\<rparr>\<rparr>"

text \<open>Line 174: the response sent when the query names no location.\<close>

definition invalidInput :: HttpResponse where
  "invalidInput =
     \<lparr>status = 400,
      body = \<lparr>current = emptyCurrent, forecast = [], hourly = None, alerts = [],
              recommendations = [], source = None, error = None\<rparr>\<rparr>"

text \<open>
  Lines 177 to 195, the geocoding step of a place-name query: the coordinates of the first
  result, or \<open>None\<close> when the fetch rejects, the status is not ok, the body cannot be read,
  there is no result, or the first result has no location (the last through the
  \<^verbatim>\<open>catch\<close> of line 193).
\<close>

definition geocodeFirst :: "World \<Rightarrow> string \<Rightarrow> (rat \<times> rat) option" where
  "geocodeFirst w cityQ =
     (case geocode w cityQ of
        None \<Rightarrow> None
      | Some geocodeRes \<Rightarrow>
          if ok geocodeRes
          then (case json geocodeRes of
             None \<Rightarrow> None
           | Some geocodeData \<Rightarrow>
               (case results geocodeData of
                  None \<Rightarrow> None
                | Some [] \<Rightarrow> None
                | Some (r # _) \<Rightarrow> geometry_location r))
          else None)"

text \<open>\<^verbatim>\<open>!key\<close>: the credential is unset or empty.\<close>

definition noKey :: "World \<Rightarrow> bool" where
  "noKey w = (case GOOGLE_API_KEY w of None \<Rightarrow> True | Some k \<Rightarrow> k = [])"

text \<open>Line 34: \<^verbatim>\<open>String(req.query.city || req.query.location || '').trim()\<close>.\<close>

definition cityQ_of :: "WeatherQuery \<Rightarrow> string" where
  "cityQ_of req = trim (or_string (city req) (or_string (location req) []))"

text \<open>Line 35: \<^verbatim>\<open>String(req.query.units || 'metric')\<close>.\<close>

definition units_of :: "WeatherQuery \<Rightarrow> string" where
  "units_of req = or_string (units req) ''metric''"

text \<open>
  Lines 32 to 199, the \<^verbatim>\<open>try\<close> block of the handler: the response it sends, or the
  exception that leaves it, and the outbound calls made. \<^verbatim>\<open>res.json\<close> without a status
  sends 200.
\<close>

definition route_try :: "World \<Rightarrow> WeatherQuery \<Rightarrow> (exception + HttpResponse) \<times> Call list" where
  "route_try w req =
     (let cityQ = cityQ_of req;
          units' = units_of req
      in if noKey w
         then (Inr notConfigured, [])
         else if isFinite (lat req) \<and> isFinite (lon req)
         then (case getWeatherData w units' (lat req) (lon req) of
                 (Some weatherData', calls) \<Rightarrow> (Inr \<lparr>status = 200, body = weatherData'\<rparr>, calls)
               | (None, calls) \<Rightarrow> (Inr \<lparr>status = 200, body = fallback_route (getMonth w)\<rparr>, calls))
         else if cityQ = []
         then (Inr invalidInput, [])
         else
           (let (found, calls) =
                  (case geocodeFirst w cityQ of
                     None \<Rightarrow> (None, [FetchGeocode cityQ])
                   | Some (latNum, lonNum) \<Rightarrow>
                       (case getWeatherData w units' (Finite latNum) (Finite lonNum) of
                          (r, calls') \<Rightarrow> (r, FetchGeocode cityQ # calls')))
            in case found of
                 Some weatherData' \<Rightarrow> (Inr \<lparr>status = 200, body = weatherData'\<rparr>, calls)
               | None \<Rightarrow>
                   (case ai_weather w cityQ of
                      None \<Rightarrow> (Inl AiWeatherRejected, calls @ [AiWeather cityQ])
                    | Some result \<Rightarrow>
                        (Inr \<lparr>status = 200, body = result\<lparr>alerts := []\<rparr>\<rparr>, calls @ [AiWeather cityQ]))))"

text \<open>
  The handler, lines 30 to 220: what leaves the \<^verbatim>\<open>try\<close> block as an exception is
  answered by the \<^verbatim>\<open>catch\<close> of line 200. The result is a sum so that an exception
  leaving the handler would be a value \<open>Inl\<close>.
\<close>

definition new_weather_route :: "World \<Rightarrow> WeatherQuery \<Rightarrow> (exception + HttpResponse) \<times> Call list" where
  "new_weather_route w req =
     (case route_try w req of
        (Inl e, calls) \<Rightarrow> (Inr \<lparr>status = 200, body = fallback_catch (getMonth w)\<rparr>, calls)
      | (Inr res, calls) \<Rightarrow> (Inr res, calls))"


subsection \<open>Notions used in the properties\<close>

text \<open>
  A provider call fails: the fetch rejects, or the status is not ok, or the body cannot
  be read.
\<close>

definition fetchFails :: "'a Response option \<Rightarrow> bool" where
  "fetchFails r = (case r of None \<Rightarrow> True | Some res \<Rightarrow> \<not> ok res \<or> json res = None)"

text \<open>The query has coordinates: line 143.\<close>

definition hasCoordinates :: "WeatherQuery \<Rightarrow> bool" where
  "hasCoordinates req = (isFinite (lat req) \<and> isFinite (lon req))"

text \<open>The labels of the seven days, in order.\<close>

definition dayLabels :: "string list" where
  "dayLabels = [''Today'', ''Tomorrow'', ''Day 3'', ''Day 4'', ''Day 5'', ''Day 6'', ''Day 7'']"

text \<open>
  The results of geocoding a place name: none when the fetch rejects, the status is not
  ok, the body cannot be read or has no \<^verbatim>\<open>results\<close>.
\<close>

definition geocodeResults :: "World \<Rightarrow> string \<Rightarrow> GeocodeResult list" where
  "geocodeResults w place =
     (case geocode w place of
        None \<Rightarrow> []
      | Some res \<Rightarrow>
          if ok res then (case json res of None \<Rightarrow> [] | Some d \<Rightarrow> nullish (results d) []) else [])"

text \<open>The outbound calls that ask the weather provider.\<close>

fun isWeatherCall :: "Call \<Rightarrow> bool" where
  "isWeatherCall (FetchCurrent _ _) = True"
| "isWeatherCall (FetchForecast _ _) = True"
| "isWeatherCall _ = False"

text \<open>The coordinates a weather call is made with.\<close>

fun callCoordinates :: "Call \<Rightarrow> (number \<times> number) option" where
  "callCoordinates (FetchCurrent la lo) = Some (la, lo)"
| "callCoordinates (FetchForecast la lo) = Some (la, lo)"
| "callCoordinates _ = None"

subsection \<open>Sample requests and environments\<close>

text \<open>Every service is down; the credential is set; the month is January.\<close>

definition world_down :: World where
  "world_down =
     \<lparr>GOOGLE_API_KEY = Some ''k'', getMonth = 0,
      currentConditions = (\<lambda>_ _. None),
      forecastLookup = (\<lambda>_ _. None),
      geocode = (\<lambda>_. None),
      ai_weather = (\<lambda>_. None)\<rparr>"

text \<open>The same with no credential.\<close>

definition world_unconfigured :: World where
  "world_unconfigured = world_down\<lparr>GOOGLE_API_KEY := None\<rparr>"

definition sample_current :: CurrentData where
  "sample_current =
     \<lparr>temperature_degrees = Some 100,
      weatherCondition_description_text = Some ''Light Rain'',
      weatherCondition_type = Some ''RAIN'',
      relativeHumidity = Some 81,
      wind_speed_value = Some (13 / 2),
      wind_direction_degrees = Some 270,
      wind_direction_cardinal = Some ''W''\<rparr>"

definition sample_forecast :: ForecastData where
  "sample_forecast =
     \<lparr>forecastDays = Some
        [\<lparr>maxTemperature_degrees = Some (61 / 2), minTemperature_degrees = Some 0,
          daytimeForecast_description_text = Some ''Sunny'', daytimeForecast_type = Some ''CLEAR''\<rparr>,
         \<lparr>maxTemperature_degrees = None, minTemperature_degrees = None,
          daytimeForecast_description_text = None, daytimeForecast_type = None\<rparr>]\<rparr>"

text \<open>
  Every service answers; geocoding finds two places, the first at latitude 19 and
  longitude 73; the month is June.
\<close>

definition world_up :: World where
  "world_up =
     \<lparr>GOOGLE_API_KEY = Some ''k'', getMonth = 5,
      currentConditions = (\<lambda>_ _. Some \<lparr>ok = True, json = Some sample_current\<rparr>),
      forecastLookup = (\<lambda>_ _. Some \<lparr>ok = True, json = Some sample_forecast\<rparr>),
      geocode = (\<lambda>_. Some \<lparr>ok = True, json = Some \<lparr>results = Some
                  [\<lparr>geometry_location = Some (19, 73)\<rparr>, \<lparr>geometry_location = Some (1, 2)\<rparr>]\<rparr>\<rparr>),
      ai_weather = (\<lambda>_. Some (fallback_catch 5))\<rparr>"

text \<open>Geocoding finds nothing and the text inference answers.\<close>

definition world_no_place :: World where
  "world_no_place = world_up\<lparr>geocode := (\<lambda>_. Some \<lparr>ok = True, json = Some \<lparr>results = Some []\<rparr>\<rparr>)\<rparr>"

text \<open>The forecast body has no \<^verbatim>\<open>forecastDays\<close>.\<close>

definition world_no_days :: World where
  "world_no_days = world_up\<lparr>forecastLookup := (\<lambda>_ _. Some \<lparr>ok = True, json = Some \<lparr>forecastDays = None\<rparr>\<rparr>)\<rparr>"

definition query_coordinates :: WeatherQuery where
  "query_coordinates =
     \<lparr>lat = Finite 1, lon = Finite 2, city = None, location = None, units = None\<rparr>"

definition query_imperial :: WeatherQuery where
  "query_imperial = query_coordinates\<lparr>units := Some ''imperial''\<rparr>"

definition query_both :: WeatherQuery where
  "query_both = query_coordinates\<lparr>city := Some ''Paris''\<rparr>"

definition query_city :: WeatherQuery where
  "query_city = \<lparr>lat = NaN, lon = NaN, city = Some '' Mumbai '', location = None, units = None\<rparr>"

definition query_empty :: WeatherQuery where
  "query_empty = \<lparr>lat = NaN, lon = NaN, city = None, location = Some ''  '', units = None\<rparr>"


section \<open>Properties\<close>

subsection \<open>Rounding, the table and the labels\<close>

lemma Math_round_of_int: "Math_round (of_int k) = of_int k"
proof -
  have "\<lfloor>(of_int k :: rat) + 1 / 2\<rfloor> = k"
    by (rule floor_unique) simp_all
  then show ?thesis by (simp add: Math_round_def)
qed


lemma Math_round_id: "x \<in> \<int> \<Longrightarrow> Math_round x = x"
  by (auto simp: Ints_def Math_round_of_int)

lemma table_nonzero_Ints:
  "\<forall>x \<in> set [20, 22, 26, 30, 32, 33, 32, 31, 30, 28, 24, 21 :: rat]. x \<noteq> 0 \<and> x \<in> \<int>"
  by simp

lemma baseTemp_in_range:
  assumes "m < 12"
  shows "baseTemp m = [20, 22, 26, 30, 32, 33, 32, 31, 30, 28, 24, 21] ! m"
proof -
  let ?t = "[20, 22, 26, 30, 32, 33, 32, 31, 30, 28, 24, 21 :: rat]"
  from assms have "?t ! m \<in> set ?t" by (intro nth_mem) simp
  with table_nonzero_Ints have "?t ! m \<noteq> 0" by blast
  with assms show ?thesis by (simp add: baseTemp_def at_index_def or_number_def)
qed

lemma baseTemp_out_of_range: "12 \<le> m \<Longrightarrow> baseTemp m = 28"
  by (simp add: baseTemp_def at_index_def or_number_def)

lemma baseTemp_Ints: "baseTemp m \<in> \<int>"
proof (cases "m < 12")
  case True
  let ?t = "[20, 22, 26, 30, 32, 33, 32, 31, 30, 28, 24, 21 :: rat]"
  from True have "?t ! m \<in> set ?t" by (intro nth_mem) simp
  with table_nonzero_Ints have "?t ! m \<in> \<int>" by blast
  with True show ?thesis by (simp add: baseTemp_in_range)
next
  case False
  then show ?thesis by (simp add: baseTemp_out_of_range)
qed

lemma map_dayLabel: "map dayLabel [0..<7] = dayLabels"
  by code_simp

lemma dayLabel_dayLabels:
  assumes "i < 7"
  shows "dayLabel i = dayLabels ! i"
proof -
  from assms have "map dayLabel [0..<7] ! i = dayLabel i" by simp
  then show ?thesis by (simp only: map_dayLabel)
qed

lemma upt_7: "[0..<7] = [0, 1, 2, 3, 4, 5, 6]"
  by (simp add: upt_rec)

subsection \<open>The provider path and the two fallbacks\<close>

lemma getWeatherData_current_fails:
  "fetchFails (currentConditions w la lo) \<Longrightarrow> getWeatherData w u la lo = (None, [FetchCurrent la lo])"
  by (auto simp: fetchFails_def getWeatherData_def split: option.splits)

lemma getWeatherData_forecast_fails:
  "fetchFails (forecastLookup w la lo) \<Longrightarrow> fst (getWeatherData w u la lo) = None"
  by (auto simp: fetchFails_def getWeatherData_def split: option.splits)

lemma route_coordinates:
  assumes "\<not> noKey w" and "hasCoordinates req"
  shows "new_weather_route w req =
     (case getWeatherData w (units_of req) (lat req) (lon req) of
        (Some r, calls) \<Rightarrow> (Inr \<lparr>status = 200, body = r\<rparr>, calls)
      | (None, calls) \<Rightarrow> (Inr \<lparr>status = 200, body = fallback_route (getMonth w)\<rparr>, calls))"
  using assms
  by (simp add: new_weather_route_def route_try_def hasCoordinates_def Let_def split: prod.splits option.splits)

lemma forecast_fallback_route:
  "forecast (fallback_route m) =
     map (\<lambda>i. \<lparr>day = dayLabels ! i,
               high = baseTemp m + of_nat (i mod 3) - 1,
               low = baseTemp m - 5 + of_nat (i mod 2),
               day_condition = [''Sunny'', ''Partly Cloudy'', ''Cloudy'', ''Rain''] ! (i mod 4),
               day_icon = Some ''fas fa-cloud-sun''\<rparr>) [0..<7]"
proof -
  have hi: "Math_round (baseTemp m + of_nat k - 1) = baseTemp m + of_nat k - 1" for k
    by (rule Math_round_id) (simp add: baseTemp_Ints)
  have lo: "Math_round (baseTemp m - 5 + of_nat k) = baseTemp m - 5 + of_nat k" for k
    by (rule Math_round_id) (simp add: baseTemp_Ints)
  show ?thesis
    unfolding fallback_route_def Let_def
    by (simp add: hi lo upt_7 dayLabel_dayLabels)
qed

subsection \<open>The baseline of the synthetic fallback\<close>

text \<open>
  C8. In both synthetic fallbacks the baseline temperature of month index \<open>m\<close> is entry
  \<open>m\<close> of the table 20, 22, 26, 30, 32, 33, 32, 31, 30, 28, 24, 21, and 28 when \<open>m\<close>
  is outside the table; it is the current temperature sent, and the condition sent is
  Sunny from 30 up, Partly Cloudy from 25 up and Cloudy below. Month index 5 gives the
  baseline 33 and the condition Sunny.
\<close>

theorem fallback_baseline:
  "(m < 12 \<longrightarrow> baseTemp m = [20, 22, 26, 30, 32, 33, 32, 31, 30, 28, 24, 21] ! m) \<and>
   (12 \<le> m \<longrightarrow> baseTemp m = 28) \<and>
   temperature (current (fallback_route m)) = Some (baseTemp m) \<and>
   condition (current (fallback_route m)) =
     Some (if baseTemp m \<ge> 30 then ''Sunny'' else if baseTemp m \<ge> 25 then ''Partly Cloudy'' else ''Cloudy'') \<and>
   temperature (current (fallback_catch m)) = Some (baseTemp m) \<and>
   condition (current (fallback_catch m)) = condition (current (fallback_route m)) \<and>
   baseTemp 5 = 33 \<and>
   condition (current (fallback_route 5)) = Some ''Sunny''"
proof -
  have five: "baseTemp 5 = 33"
    by (simp add: baseTemp_in_range)
  have round: "Math_round (baseTemp m) = baseTemp m"
    by (rule Math_round_id) (rule baseTemp_Ints)
  show ?thesis
    by (simp add: baseTemp_in_range baseTemp_out_of_range five round fallback_route_def fallback_catch_def Let_def)
qed

theorem fallback_baseline_witness:
  "baseTemp 5 = 33 \<and> baseTemp 0 = 20 \<and> baseTemp 11 = 21 \<and> baseTemp 12 = 28 \<and>
   condition (current (fallback_route 5)) = Some ''Sunny'' \<and>
   condition (current (fallback_route 2)) = Some ''Partly Cloudy'' \<and>
   condition (current (fallback_route 0)) = Some ''Cloudy''"
  using fallback_baseline [of 5] fallback_baseline [of 0] fallback_baseline [of 11]
    fallback_baseline [of 12] fallback_baseline [of 2]
  by simp

subsection \<open>The forecast of the synthetic fallback\<close>

text \<open>
  C2, as the specification states it, fails on the source tag: with the credential set,
  coordinates in the query and both provider calls failing, the handler answers 200 with
  the synthetic result, whose tag is \<^verbatim>\<open>fallback-route\<close> and not \<^verbatim>\<open>fallback\<close>.
\<close>

theorem fallback_when_providers_fail_counterexample:
  "\<not> noKey world_down \<and> hasCoordinates query_coordinates \<and>
   fetchFails (currentConditions world_down (lat query_coordinates) (lon query_coordinates)) \<and>
   fetchFails (forecastLookup world_down (lat query_coordinates) (lon query_coordinates)) \<and>
   fst (new_weather_route world_down query_coordinates) = Inr \<lparr>status = 200, body = fallback_route 0\<rparr> \<and>
   source (fallback_route 0) = Some ''fallback-route'' \<and>
   source (fallback_route 0) \<noteq> Some ''fallback''"
  by (simp add: new_weather_route_def route_try_def world_down_def query_coordinates_def
      getWeatherData_def noKey_def hasCoordinates_def fetchFails_def fallback_route_def Let_def)

text \<open>
  C2, amended. For every query with coordinates, the credential being set, in which both
  provider calls fail, the handler answers 200 with a result whose source tag is
  \<^verbatim>\<open>fallback-route\<close> and whose forecast has exactly 7 entries where, for day index \<open>i\<close>
  and baseline \<open>b\<close>, high is \<open>b + (i mod 3) - 1\<close>, low is \<open>b - 5 + (i mod 2)\<close> and the
  condition is entry \<open>i mod 4\<close> of Sunny, Partly Cloudy, Cloudy, Rain.
\<close>

theorem fallback_when_providers_fail:
  assumes "\<not> noKey w" and "hasCoordinates req"
    and "fetchFails (currentConditions w (lat req) (lon req))"
    and "fetchFails (forecastLookup w (lat req) (lon req))"
  shows "\<exists>res. fst (new_weather_route w req) = Inr res \<and> status res = 200 \<and>
     source (body res) = Some ''fallback-route'' \<and>
     length (forecast (body res)) = 7 \<and>
     map high (forecast (body res)) = map (\<lambda>i. baseTemp (getMonth w) + of_nat (i mod 3) - 1) [0..<7] \<and>
     map low (forecast (body res)) = map (\<lambda>i. baseTemp (getMonth w) - 5 + of_nat (i mod 2)) [0..<7] \<and>
     map day_condition (forecast (body res)) =
       map (\<lambda>i. [''Sunny'', ''Partly Cloudy'', ''Cloudy'', ''Rain''] ! (i mod 4)) [0..<7]"
proof -
  have route: "new_weather_route w req =
      (Inr \<lparr>status = 200, body = fallback_route (getMonth w)\<rparr>, [FetchCurrent (lat req) (lon req)])"
    using assms(1,2) by (simp add: route_coordinates getWeatherData_current_fails [OF assms(3)])
  have src: "source (fallback_route (getMonth w)) = Some ''fallback-route''"
    by (simp add: fallback_route_def Let_def)
  show ?thesis
    by (simp add: route src forecast_fallback_route comp_def del: upt_Suc)
qed

theorem fallback_when_providers_fail_witness:
  "fst (new_weather_route world_down query_coordinates) = Inr \<lparr>status = 200, body = fallback_route 0\<rparr> \<and>
   map high (forecast (fallback_route 0)) = [19, 20, 21, 19, 20, 21, 19] \<and>
   map low (forecast (fallback_route 0)) = [15, 16, 15, 16, 15, 16, 15] \<and>
   map day_condition (forecast (fallback_route 0)) =
     [''Sunny'', ''Partly Cloudy'', ''Cloudy'', ''Rain'', ''Sunny'', ''Partly Cloudy'', ''Cloudy'']"
proof -
  have k: "\<not> noKey world_down"
    by (simp add: noKey_def world_down_def)
  have c: "hasCoordinates query_coordinates"
    by (simp add: hasCoordinates_def query_coordinates_def)
  have f1: "fetchFails (currentConditions world_down (lat query_coordinates) (lon query_coordinates))"
    by (simp add: fetchFails_def world_down_def)
  have f2: "fetchFails (forecastLookup world_down (lat query_coordinates) (lon query_coordinates))"
    by (simp add: fetchFails_def world_down_def)
  have m: "getMonth world_down = 0"
    by (simp add: world_down_def)
  have b: "baseTemp 0 = 20"
    by (simp add: baseTemp_in_range)
  have r: "fst (new_weather_route world_down query_coordinates) = Inr \<lparr>status = 200, body = fallback_route 0\<rparr>"
    using k c by (simp add: route_coordinates getWeatherData_current_fails [OF f1] m)
  from fallback_when_providers_fail [OF k c f1 f2] show ?thesis
    by (simp add: r m b upt_7)
qed

subsection \<open>The two synthetic fallbacks compared\<close>

text \<open>
  C10, as stated, fails: the result of the \<^verbatim>\<open>catch\<close> block and the result sent when the
  provider gave nothing are not equal; their recommendations, their current conditions and
  their forecasts all differ, already in January.
\<close>

theorem fallbacks_differ_counterexample:
  "recommendations (fallback_catch 0) \<noteq> recommendations (fallback_route 0) \<and>
   current (fallback_catch 0) \<noteq> current (fallback_route 0) \<and>
   forecast (fallback_catch 0) \<noteq> forecast (fallback_route 0) \<and>
   fallback_catch 0 \<noteq> fallback_route 0"
  by (simp add: fallback_catch_def fallback_route_def Let_def upt_7)

text \<open>
  C10, amended. For every month the result of the \<^verbatim>\<open>catch\<close> block is the result of the
  coordinate path with the icons removed from the current conditions and from every
  forecast entry (where the coordinate path has \<^verbatim>\<open>fas fa-cloud-sun\<close>) and with a fourth
  recommendation appended to its three; alerts and source tag are the same.
\<close>

theorem fallbacks_agree:
  "current (fallback_catch m) = (current (fallback_route m))\<lparr>icon := None\<rparr> \<and>
   icon (current (fallback_route m)) = Some ''fas fa-cloud-sun'' \<and>
   forecast (fallback_catch m) = map (\<lambda>d. d\<lparr>day_icon := None\<rparr>) (forecast (fallback_route m)) \<and>
   map day_icon (forecast (fallback_route m)) = map (\<lambda>_. Some ''fas fa-cloud-sun'') [0..<7] \<and>
   recommendations (fallback_catch m) =
     recommendations (fallback_route m) @ [''Check local advisories for heat or rain''] \<and>
   length (recommendations (fallback_route m)) = 3 \<and>
   alerts (fallback_catch m) = alerts (fallback_route m) \<and>
   hourly (fallback_catch m) = hourly (fallback_route m) \<and>
   error (fallback_catch m) = error (fallback_route m) \<and>
   source (fallback_catch m) = source (fallback_route m)"
  by (simp add: fallback_catch_def fallback_route_def Let_def upt_7)

subsection \<open>The missing credential\<close>

text \<open>
  C6. When the credential is unset or empty, every query is answered with status 503 and
  the message \<^verbatim>\<open>Weather service not configured\<close>; no outbound call is made, and the
  body carries no current conditions, no forecast and no source tag.
\<close>

theorem missing_credential:
  assumes "noKey w"
  shows "new_weather_route w req = (Inr notConfigured, []) \<and>
     status notConfigured = 503 \<and>
     error (body notConfigured) = Some ''Weather service not configured'' \<and>
     source (body notConfigured) = None \<and>
     forecast (body notConfigured) = [] \<and>
     current (body notConfigured) = emptyCurrent"
  using assms by (simp add: new_weather_route_def route_try_def notConfigured_def Let_def)

theorem missing_credential_witness:
  "noKey world_unconfigured \<and> noKey (world_up\<lparr>GOOGLE_API_KEY := Some []\<rparr>) \<and>
   new_weather_route world_unconfigured query_coordinates = (Inr notConfigured, []) \<and>
   new_weather_route (world_up\<lparr>GOOGLE_API_KEY := Some []\<rparr>) query_city = (Inr notConfigured, [])"
proof -
  have a: "noKey world_unconfigured"
    by (simp add: noKey_def world_unconfigured_def world_down_def)
  have b: "noKey (world_up\<lparr>GOOGLE_API_KEY := Some []\<rparr>)"
    by (simp add: noKey_def)
  from missing_credential [OF a, of query_coordinates] missing_credential [OF b, of query_city] a b
  show ?thesis by simp
qed

subsection \<open>Units\<close>

text \<open>
  On provider data the conversion is the one the specification gives: 0 becomes 32 and
  100 becomes 212 for a query that is not metric.
\<close>

lemma inUnits_points:
  "inUnits ''imperial'' 0 = 32 \<and> inUnits ''imperial'' 100 = 212 \<and>
   inUnits ''metric'' 0 = 0 \<and> inUnits ''metric'' 100 = 100"
  by (simp add: inUnits_def Math_round_def floor_eq_iff)

text \<open>
  A forecast day without a maximum or minimum takes the current temperature, which is
  already converted, and converts it again (lines 103, 104, 110 and 111): for the imperial
  query, a current temperature of 100 degrees Celsius is sent as 212, and the second day of
  the sample, which has no temperatures, gets the high 414 and the low 405.
\<close>

lemma default_day_converted_twice:
  "temperature (current (weatherData ''imperial'' sample_current sample_forecast)) = Some 212 \<and>
   map high (forecast (weatherData ''imperial'' sample_current sample_forecast)) = [87, 414] \<and>
   map low (forecast (weatherData ''imperial'' sample_current sample_forecast)) = [32, 405]"
proof -
  have c: "inUnits ''imperial'' 100 = 212" "inUnits ''imperial'' (61 / 2) = 87"
    "inUnits ''imperial'' 0 = 32" "inUnits ''imperial'' 212 = 414" "inUnits ''imperial'' 207 = 405"
    by (simp_all add: inUnits_def Math_round_def floor_eq_iff)
  show ?thesis
    by (simp add: weatherData_def Let_def sample_current_def sample_forecast_def nullish_def
        enumerate_eq_zip upt_rec c)
qed

text \<open>
  C3 does not hold of the synthetic fallback. With every service down in January, the
  query asking for imperial units is answered with the same numbers as the metric query:
  temperature 20 and highs 19, 20, 21, ..., where the conversion would give 68 and
  66, 68, 70, ....
\<close>

theorem fallback_ignores_units:
  "units_of query_imperial = ''imperial'' \<and>
   fst (new_weather_route world_down query_imperial) = Inr \<lparr>status = 200, body = fallback_route 0\<rparr> \<and>
   fst (new_weather_route world_down query_coordinates) = Inr \<lparr>status = 200, body = fallback_route 0\<rparr> \<and>
   temperature (current (fallback_route 0)) = Some 20 \<and>
   inUnits ''imperial'' 20 = 68 \<and>
   map high (forecast (fallback_route 0)) = [19, 20, 21, 19, 20, 21, 19] \<and>
   map (inUnits ''imperial'') [19, 20, 21, 19, 20, 21, 19] = [66, 68, 70, 66, 68, 70, 66]"
  by (simp add: new_weather_route_def route_try_def world_down_def query_coordinates_def query_imperial_def
      getWeatherData_def noKey_def units_of_def or_string_def inUnits_def Math_round_def
      fallback_route_def Let_def baseTemp_def at_index_def or_number_def upt_7 floor_eq_iff)

subsection \<open>The result built from provider data\<close>

lemma getWeatherData_Some:
  assumes "fst (getWeatherData w u la lo) = Some r"
  shows "\<exists>c f. r = weatherData u c f"
  using assms
  by (auto simp: getWeatherData_def split: option.splits if_splits)


lemma source_weatherData: "source (weatherData u c f) = Some ''google-weather''"
  by (simp add: weatherData_def Let_def)

lemma forecast_weatherData:
  "forecast (weatherData u c f) =
     map (\<lambda>(i, d).
            \<lparr>day = dayLabel i,
             high = inUnits u (nullish (maxTemperature_degrees d) (inUnits u (nullish (temperature_degrees c) 22))),
             low = inUnits u (nullish (minTemperature_degrees d) (inUnits u (nullish (temperature_degrees c) 22) - 5)),
             day_condition = or_string (daytimeForecast_description_text d) ''Clear'',
             day_icon = Some (or_string (iconMap (or_string (daytimeForecast_type d) ''CLEAR'')) ''fas fa-cloud'')\<rparr>)
       (enumerate 0 (take 7 (nullish (forecastDays f) [])))"
  by (simp add: weatherData_def Let_def)

lemma temperature_weatherData:
  "temperature (current (weatherData u c f)) = Some (inUnits u (nullish (temperature_degrees c) 22))"
  by (simp add: weatherData_def Let_def split: list.splits)









lemma today_weatherData:
  "(case forecast (weatherData u c f) of
      [] \<Rightarrow> tempMin (current (weatherData u c f)) = Some (inUnits u (nullish (temperature_degrees c) 22) - 5) \<and>
            tempMax (current (weatherData u c f)) = Some (inUnits u (nullish (temperature_degrees c) 22))
    | first # _ \<Rightarrow> tempMin (current (weatherData u c f)) = Some (low first) \<and>
            tempMax (current (weatherData u c f)) = Some (high first))"
  by (simp add: weatherData_def Let_def split: list.splits)



lemma route_coordinates_fst:
  assumes "\<not> noKey w" and "hasCoordinates req"
  shows "fst (new_weather_route w req) =
     Inr \<lparr>status = 200,
          body = (case fst (getWeatherData w (units_of req) (lat req) (lon req)) of
                    Some r \<Rightarrow> r
                  | None \<Rightarrow> fallback_route (getMonth w))\<rparr>"
  using route_coordinates [OF assms]
  by (cases "getWeatherData w (units_of req) (lat req) (lon req)") (auto split: option.splits)

lemma route_coordinates_snd:
  assumes "\<not> noKey w" and "hasCoordinates req"
  shows "snd (new_weather_route w req) = snd (getWeatherData w (units_of req) (lat req) (lon req))"
  using route_coordinates [OF assms]
  by (cases "getWeatherData w (units_of req) (lat req) (lon req)") (auto split: option.splits)

lemma inUnits_metric_samples:
  "inUnits ''metric'' 100 = 100" "inUnits ''metric'' (61 / 2) = 31"
  "inUnits ''metric'' 0 = 0" "inUnits ''metric'' 95 = 95"
  by (simp_all add: inUnits_def Math_round_def floor_eq_iff)

subsection \<open>The shape of the answer to a coordinate query\<close>



subsection \<open>Today's range\<close>

text \<open>
  C9. When a coordinate query gets its data from the provider, that data is what is sent,
  and whenever its forecast is not empty, \<^verbatim>\<open>tempMin\<close> and \<^verbatim>\<open>tempMax\<close> of the current
  conditions are the low and the high of the first forecast day; with an empty forecast they
  stay at the estimate made from the current temperature \<open>t\<close>, which is \<open>t - 5\<close> and \<open>t\<close>.
\<close>

theorem today_range_from_forecast:
  assumes "\<not> noKey w" and "hasCoordinates req"
    and "fst (getWeatherData w (units_of req) (lat req) (lon req)) = Some r"
  shows "fst (new_weather_route w req) = Inr \<lparr>status = 200, body = r\<rparr> \<and>
     (forecast r \<noteq> [] \<longrightarrow>
        tempMin (current r) = Some (low (hd (forecast r))) \<and>
        tempMax (current r) = Some (high (hd (forecast r)))) \<and>
     (forecast r = [] \<longrightarrow>
        (\<exists>t. temperature (current r) = Some t \<and>
           tempMin (current r) = Some (t - 5) \<and> tempMax (current r) = Some t))"
proof -
  have route: "fst (new_weather_route w req) = Inr \<lparr>status = 200, body = r\<rparr>"
    using assms by (simp add: route_coordinates_fst)
  from assms(3) obtain c f where r: "r = weatherData (units_of req) c f"
    using getWeatherData_Some by blast
  show ?thesis
    using today_weatherData [of "units_of req" c f]
    by (cases "forecast r") (simp_all add: route r temperature_weatherData)
qed
theorem today_range_from_forecast_witness:
  "fst (new_weather_route world_up query_coordinates) =
     Inr \<lparr>status = 200, body = weatherData ''metric'' sample_current sample_forecast\<rparr> \<and>
   tempMin (current (weatherData ''metric'' sample_current sample_forecast)) = Some 0 \<and>
   tempMax (current (weatherData ''metric'' sample_current sample_forecast)) = Some 31 \<and>
   fst (new_weather_route world_no_days query_coordinates) =
     Inr \<lparr>status = 200, body = weatherData ''metric'' sample_current \<lparr>forecastDays = None\<rparr>\<rparr> \<and>
   tempMin (current (weatherData ''metric'' sample_current \<lparr>forecastDays = None\<rparr>)) = Some 95 \<and>
   tempMax (current (weatherData ''metric'' sample_current \<lparr>forecastDays = None\<rparr>)) = Some 100"
proof -
  have k: "\<not> noKey world_up" "\<not> noKey world_no_days"
    by (simp_all add: noKey_def world_up_def world_no_days_def)
  have c: "hasCoordinates query_coordinates"
    by (simp add: hasCoordinates_def query_coordinates_def)
  have u: "units_of query_coordinates = ''metric''"
    by (simp add: units_of_def query_coordinates_def or_string_def)
  have g1: "fst (getWeatherData world_up (units_of query_coordinates) (lat query_coordinates) (lon query_coordinates)) =
      Some (weatherData ''metric'' sample_current sample_forecast)"
    by (simp add: u getWeatherData_def world_up_def)
  have g2: "fst (getWeatherData world_no_days (units_of query_coordinates) (lat query_coordinates) (lon query_coordinates)) =
      Some (weatherData ''metric'' sample_current \<lparr>forecastDays = None\<rparr>)"
    by (simp add: u getWeatherData_def world_up_def world_no_days_def)
  have f1: "forecast (weatherData ''metric'' sample_current sample_forecast) =
     [\<lparr>day = ''Today'', high = 31, low = 0, day_condition = ''Sunny'', day_icon = Some ''fas fa-sun''\<rparr>,
      \<lparr>day = ''Tomorrow'', high = 100, low = 95, day_condition = ''Clear'', day_icon = Some ''fas fa-sun''\<rparr>]"
    by (simp add: forecast_weatherData sample_current_def sample_forecast_def nullish_def
        enumerate_eq_zip upt_rec inUnits_metric_samples dayLabel_def or_string_def iconMap_def)
  have f2: "forecast (weatherData ''metric'' sample_current \<lparr>forecastDays = None\<rparr>) = []"
    by (simp add: forecast_weatherData nullish_def)
  have t: "temperature (current (weatherData ''metric'' sample_current \<lparr>forecastDays = None\<rparr>)) = Some 100"
    by (simp add: temperature_weatherData sample_current_def nullish_def inUnits_metric_samples)
  from today_range_from_forecast [OF k(1) c g1] today_range_from_forecast [OF k(2) c g2]
  show ?thesis
    by (simp add: f1 f2 t)
qed

subsection \<open>The paths of the handler\<close>


lemma geocodeFirst_geocodeResults:
  "geocodeFirst w place = (case geocodeResults w place of [] \<Rightarrow> None | r # _ \<Rightarrow> geometry_location r)"
  by (simp add: geocodeFirst_def geocodeResults_def nullish_def split: option.splits list.splits)

lemma calls_getWeatherData:
  "snd (getWeatherData w u la lo) = [FetchCurrent la lo] \<or>
   snd (getWeatherData w u la lo) = [FetchCurrent la lo, FetchForecast la lo]"
  by (simp add: getWeatherData_def split: option.splits)

lemma isFinite_hasCoordinates:
  "(isFinite (lat req) \<and> isFinite (lon req)) = hasCoordinates req"
  by (simp add: hasCoordinates_def)

lemma route_no_key: "noKey w \<Longrightarrow> new_weather_route w req = (Inr notConfigured, [])"
  by (simp add: new_weather_route_def route_try_def Let_def)

lemma route_invalid:
  "\<not> noKey w \<Longrightarrow> \<not> hasCoordinates req \<Longrightarrow> cityQ_of req = [] \<Longrightarrow>
   new_weather_route w req = (Inr invalidInput, [])"
  by (simp add: new_weather_route_def route_try_def Let_def isFinite_hasCoordinates)

text \<open>The answer of the text inference, or of the \<^verbatim>\<open>catch\<close> block when it rejects.\<close>

lemma route_place_not_found:
  assumes "\<not> noKey w" and "\<not> hasCoordinates req" and "cityQ_of req \<noteq> []"
    and "geocodeFirst w (cityQ_of req) = None"
  shows "new_weather_route w req =
     (Inr \<lparr>status = 200,
           body = (case ai_weather w (cityQ_of req) of
                     None \<Rightarrow> fallback_catch (getMonth w)
                   | Some result \<Rightarrow> result\<lparr>alerts := []\<rparr>)\<rparr>,
      [FetchGeocode (cityQ_of req), AiWeather (cityQ_of req)])"
  using assms
  by (simp add: new_weather_route_def route_try_def Let_def isFinite_hasCoordinates split: option.splits)

lemma route_place_found:
  assumes "\<not> noKey w" and "\<not> hasCoordinates req" and "cityQ_of req \<noteq> []"
    and "geocodeFirst w (cityQ_of req) = Some (la, lo)"
  shows "new_weather_route w req =
     (case getWeatherData w (units_of req) (Finite la) (Finite lo) of
        (Some r, calls) \<Rightarrow> (Inr \<lparr>status = 200, body = r\<rparr>, FetchGeocode (cityQ_of req) # calls)
      | (None, calls) \<Rightarrow>
          (Inr \<lparr>status = 200,
                body = (case ai_weather w (cityQ_of req) of
                          None \<Rightarrow> fallback_catch (getMonth w)
                        | Some result \<Rightarrow> result\<lparr>alerts := []\<rparr>)\<rparr>,
           FetchGeocode (cityQ_of req) # calls @ [AiWeather (cityQ_of req)]))"
  using assms
  by (simp add: new_weather_route_def route_try_def Let_def isFinite_hasCoordinates split: option.splits prod.splits)

lemma getWeatherData_result:
  "(\<exists>calls. getWeatherData w u la lo = (None, calls) \<and>
      (calls = [FetchCurrent la lo] \<or> calls = [FetchCurrent la lo, FetchForecast la lo])) \<or>
   (\<exists>c f. getWeatherData w u la lo =
      (Some (weatherData u c f), [FetchCurrent la lo, FetchForecast la lo]))"
  by (simp add: getWeatherData_def split: option.splits) blast

lemma getWeatherData_cases:
  obtains (none) calls where "getWeatherData w u la lo = (None, calls)"
      and "calls = [FetchCurrent la lo] \<or> calls = [FetchCurrent la lo, FetchForecast la lo]"
    | (some) c f where
      "getWeatherData w u la lo = (Some (weatherData u c f), [FetchCurrent la lo, FetchForecast la lo])"
  using getWeatherData_result [of w u la lo] by blast

text \<open>Every answer, path by path.\<close>

lemma route_cases:
  obtains
    (no_key) "noKey w" and "new_weather_route w req = (Inr notConfigured, [])"
  | (invalid) "\<not> noKey w" and "\<not> hasCoordinates req" and "cityQ_of req = []"
      and "new_weather_route w req = (Inr invalidInput, [])"
  | (provider) c f calls where "\<not> noKey w" and "hasCoordinates req \<or> cityQ_of req \<noteq> []"
      and "new_weather_route w req = (Inr \<lparr>status = 200, body = weatherData (units_of req) c f\<rparr>, calls)"
      and "calls \<noteq> []"
  | (fallback) calls where "\<not> noKey w" and "hasCoordinates req"
      and "new_weather_route w req = (Inr \<lparr>status = 200, body = fallback_route (getMonth w)\<rparr>, calls)"
      and "calls \<noteq> []"
  | (ai) result calls where "\<not> noKey w" and "\<not> hasCoordinates req" and "cityQ_of req \<noteq> []"
      and "ai_weather w (cityQ_of req) = Some result"
      and "new_weather_route w req = (Inr \<lparr>status = 200, body = result\<lparr>alerts := []\<rparr>\<rparr>, calls)"
      and "calls \<noteq> []"
  | (caught) calls where "\<not> noKey w" and "\<not> hasCoordinates req" and "cityQ_of req \<noteq> []"
      and "ai_weather w (cityQ_of req) = None"
      and "new_weather_route w req = (Inr \<lparr>status = 200, body = fallback_catch (getMonth w)\<rparr>, calls)"
      and "calls \<noteq> []"
proof (cases "noKey w")
  case True
  then show ?thesis using no_key route_no_key by blast
next
  case key: False
  show ?thesis
  proof (cases "hasCoordinates req")
    case coords: True
    show ?thesis
    proof (cases rule: getWeatherData_cases [of w "units_of req" "lat req" "lon req"])
      case (none calls)
      then show ?thesis
        using fallback [of calls] key coords by (auto simp: route_coordinates)
    next
      case (some c f)
      then show ?thesis
        using provider [of c f] key coords by (auto simp: route_coordinates)
    qed
  next
    case nocoords: False
    show ?thesis
    proof (cases "cityQ_of req = []")
      case True
      then show ?thesis using invalid key nocoords route_invalid by blast
    next
      case place: False
      show ?thesis
      proof (cases "geocodeFirst w (cityQ_of req)")
        case None
        note r = route_place_not_found [OF key nocoords place None]
        show ?thesis
        proof (cases "ai_weather w (cityQ_of req)")
          case None
          then show ?thesis using caught key nocoords place r by auto
        next
          case (Some result)
          then show ?thesis using ai [of result] key nocoords place r by auto
        qed
      next
        case (Some p)
        obtain la lo where p: "p = (la, lo)" by (cases p)
        note r = route_place_found [OF key nocoords place Some [unfolded p]]
        show ?thesis
        proof (cases rule: getWeatherData_cases [of w "units_of req" "Finite la" "Finite lo"])
          case (none calls)
          show ?thesis
          proof (cases "ai_weather w (cityQ_of req)")
            case None
            then show ?thesis using caught key nocoords place r none by auto
          next
            case (Some result)
            then show ?thesis using ai [of result] key nocoords place r none by auto
          qed
        next
          case (some c f)
          then show ?thesis using provider [of c f] key place r by auto
        qed
      qed
    qed
  qed
qed

lemma status_errors: "status notConfigured = 503 \<and> status invalidInput = 400"
  by (simp add: notConfigured_def invalidInput_def)


text \<open>The sample requests and environments, evaluated.\<close>

lemma cityQ_samples:
  "cityQ_of query_city = ''Mumbai''" "cityQ_of query_empty = []"
  "cityQ_of query_both = ''Paris''" "cityQ_of query_coordinates = []"
  by code_simp+

lemma hasCoordinates_samples:
  "hasCoordinates query_coordinates" "hasCoordinates query_both" "hasCoordinates query_imperial"
  "\<not> hasCoordinates query_city" "\<not> hasCoordinates query_empty"
  by (simp_all add: hasCoordinates_def query_coordinates_def query_both_def query_imperial_def
      query_city_def query_empty_def)

lemma noKey_samples:
  "\<not> noKey world_down" "\<not> noKey world_up" "\<not> noKey world_no_place" "\<not> noKey world_no_days"
  "noKey world_unconfigured"
  by (simp_all add: noKey_def world_down_def world_up_def world_no_place_def world_no_days_def
      world_unconfigured_def)

subsection \<open>No exception leaves the handler\<close>



subsection \<open>Input validation\<close>

text \<open>
  C4, as stated, fails: a query that has both coordinates and a place name passes the
  validation, although not exactly one of the two is present; the provider is asked for
  the coordinates and the answer is 200.
\<close>

theorem input_validation_counterexample:
  "\<not> noKey world_up \<and> hasCoordinates query_both \<and> cityQ_of query_both = ''Paris'' \<and>
   new_weather_route world_up query_both =
     (Inr \<lparr>status = 200, body = weatherData ''metric'' sample_current sample_forecast\<rparr>,
      [FetchCurrent (Finite 1) (Finite 2), FetchForecast (Finite 1) (Finite 2)])"
proof -
  have "getWeatherData world_up (units_of query_both) (lat query_both) (lon query_both) =
      (Some (weatherData ''metric'' sample_current sample_forecast),
       [FetchCurrent (Finite 1) (Finite 2), FetchForecast (Finite 1) (Finite 2)])"
    by (simp add: getWeatherData_def world_up_def units_of_def or_string_def query_both_def
        query_coordinates_def)
  then show ?thesis
    by (simp add: route_coordinates noKey_samples hasCoordinates_samples cityQ_samples)
qed

text \<open>
  With the credential missing, the query without any location is answered with 503, as
  every query is, and not with 400.
\<close>

lemma invalid_input_without_credential:
  "\<not> hasCoordinates query_empty \<and> cityQ_of query_empty = [] \<and>
   new_weather_route world_unconfigured query_empty = (Inr notConfigured, []) \<and>
   status notConfigured = 503"
  by (simp add: route_no_key noKey_samples hasCoordinates_samples cityQ_samples status_errors)

text \<open>
  C4, amended. With the credential set, the handler goes past its validation (it makes an
  outbound call) exactly when the query has finite coordinates or a place name that is not
  empty once trimmed, the coordinates being used when it has both; when it has neither, the
  handler answers with the 400 of line 174, makes no outbound call and sends no synthetic
  data: no current conditions, no forecast, no source tag.
\<close>

theorem input_validation:
  assumes "\<not> noKey w"
  shows "(snd (new_weather_route w req) = []) = (\<not> hasCoordinates req \<and> cityQ_of req = []) \<and>
     (fst (new_weather_route w req) = Inr invalidInput) = (\<not> hasCoordinates req \<and> cityQ_of req = []) \<and>
     (\<exists>res. fst (new_weather_route w req) = Inr res \<and>
        (status res = 400) = (\<not> hasCoordinates req \<and> cityQ_of req = [])) \<and>
     (hasCoordinates req \<longrightarrow>
        (\<exists>rest. snd (new_weather_route w req) = FetchCurrent (lat req) (lon req) # rest)) \<and>
     (\<not> hasCoordinates req \<and> cityQ_of req \<noteq> [] \<longrightarrow>
        (\<exists>rest. snd (new_weather_route w req) = FetchGeocode (cityQ_of req) # rest)) \<and>
     status invalidInput = 400 \<and> source (body invalidInput) = None \<and>
     forecast (body invalidInput) = [] \<and> current (body invalidInput) = emptyCurrent"
proof -
  have inv: "status invalidInput = 400 \<and> source (body invalidInput) = None \<and>
     forecast (body invalidInput) = [] \<and> current (body invalidInput) = emptyCurrent"
    by (simp add: invalidInput_def)
  have coords: "\<exists>rest. snd (new_weather_route w req) = FetchCurrent (lat req) (lon req) # rest"
    if "hasCoordinates req"
    using calls_getWeatherData [of w "units_of req" "lat req" "lon req"]
    by (auto simp: route_coordinates_snd [OF assms that])
  have place: "\<exists>rest. snd (new_weather_route w req) = FetchGeocode (cityQ_of req) # rest"
    if "\<not> hasCoordinates req" and "cityQ_of req \<noteq> []"
  proof (cases "geocodeFirst w (cityQ_of req)")
    case None
    then show ?thesis by (simp add: route_place_not_found [OF assms that])
  next
    case (Some p)
    obtain la lo where p: "p = (la, lo)" by (cases p)
    show ?thesis
      by (simp add: route_place_found [OF assms that Some [unfolded p]] split: prod.splits option.splits)
  qed
  have main: "(snd (new_weather_route w req) = []) = (\<not> hasCoordinates req \<and> cityQ_of req = []) \<and>
     (fst (new_weather_route w req) = Inr invalidInput) = (\<not> hasCoordinates req \<and> cityQ_of req = []) \<and>
     (\<exists>res. fst (new_weather_route w req) = Inr res \<and>
        (status res = 400) = (\<not> hasCoordinates req \<and> cityQ_of req = []))"
  proof (cases rule: route_cases [of w req])
    case no_key
    with assms show ?thesis by simp
  next
    case invalid
    then show ?thesis by (simp add: inv)
  next
    case (provider c f calls)
    then show ?thesis by (auto simp: invalidInput_def)
  next
    case (fallback calls)
    then show ?thesis by (auto simp: invalidInput_def)
  next
    case (ai result calls)
    then show ?thesis by (auto simp: invalidInput_def)
  next
    case (caught calls)
    then show ?thesis by (auto simp: invalidInput_def)
  qed
  show ?thesis
    using main coords place inv by blast
qed

theorem input_validation_witness:
  "new_weather_route world_down query_empty = (Inr invalidInput, []) \<and>
   snd (new_weather_route world_down query_coordinates) = [FetchCurrent (Finite 1) (Finite 2)] \<and>
   snd (new_weather_route world_down query_both) = [FetchCurrent (Finite 1) (Finite 2)] \<and>
   snd (new_weather_route world_down query_city) = [FetchGeocode ''Mumbai'', AiWeather ''Mumbai'']"
proof -
  have g: "geocodeFirst world_down ''Mumbai'' = None"
    by (simp add: geocodeFirst_def world_down_def)
  have a: "snd (new_weather_route world_down query_city) = [FetchGeocode ''Mumbai'', AiWeather ''Mumbai'']"
    using route_place_not_found [of world_down query_city]
    by (simp add: noKey_samples hasCoordinates_samples cityQ_samples g)
  have l: "lat query_coordinates = Finite 1" "lon query_coordinates = Finite 2"
    "lat query_both = Finite 1" "lon query_both = Finite 2"
    by (simp_all add: query_coordinates_def query_both_def)
  have f: "fetchFails (currentConditions world_down la lo)" for la lo
    by (simp add: fetchFails_def world_down_def)
  have c: "snd (new_weather_route world_down query_coordinates) = [FetchCurrent (Finite 1) (Finite 2)]"
    "snd (new_weather_route world_down query_both) = [FetchCurrent (Finite 1) (Finite 2)]"
    by (simp_all add: route_coordinates_snd noKey_samples hasCoordinates_samples
        getWeatherData_current_fails [OF f] l)
  from input_validation [OF noKey_samples(1), of query_empty]
    input_validation [OF noKey_samples(1), of query_coordinates]
    input_validation [OF noKey_samples(1), of query_both]
    input_validation [OF noKey_samples(1), of query_city]
  show ?thesis
    by (simp add: a c hasCoordinates_samples cityQ_samples prod_eq_iff)
qed

subsection \<open>The place-name path\<close>

lemma weather_calls_getWeatherData:
  "call \<in> set (snd (getWeatherData w u la lo)) \<Longrightarrow> callCoordinates call = Some (la, lo)"
  using calls_getWeatherData [of w u la lo] by auto

lemma no_ai_call_getWeatherData:
  "AiWeather c \<notin> set (snd (getWeatherData w u la lo))"
  using calls_getWeatherData [of w u la lo] by auto

text \<open>
  C5. For every query with a place name and no coordinates, the credential being set:
  when geocoding gives at least one result, the first one having a location, the weather
  provider is asked next, every weather call is made with exactly the coordinates of
  that first result, and provider data found there is what is sent; when geocoding fails or
  gives no result, the text inference is called with the place name and its answer is
  sent; and whenever the text inference was called and rejected, the synthetic fallback of
  the \<^verbatim>\<open>catch\<close> block is sent.
\<close>

theorem place_name_lookup:
  assumes "\<not> noKey w" and "\<not> hasCoordinates req" and "cityQ_of req \<noteq> []"
  shows
   "(geocodeResults w (cityQ_of req) = r # rs \<and> geometry_location r = Some (la, lo) \<longrightarrow>
       (\<exists>rest. snd (new_weather_route w req) =
          FetchGeocode (cityQ_of req) # FetchCurrent (Finite la) (Finite lo) # rest) \<and>
       (\<forall>call \<in> set (snd (new_weather_route w req)).
          isWeatherCall call \<longrightarrow> callCoordinates call = Some (Finite la, Finite lo)) \<and>
       (fst (getWeatherData w (units_of req) (Finite la) (Finite lo)) = Some d \<longrightarrow>
          fst (new_weather_route w req) = Inr \<lparr>status = 200, body = d\<rparr>)) \<and>
    (geocodeResults w (cityQ_of req) = [] \<longrightarrow>
       snd (new_weather_route w req) = [FetchGeocode (cityQ_of req), AiWeather (cityQ_of req)] \<and>
       (ai_weather w (cityQ_of req) = Some result \<longrightarrow>
          fst (new_weather_route w req) = Inr \<lparr>status = 200, body = result\<lparr>alerts := []\<rparr>\<rparr>)) \<and>
    (AiWeather (cityQ_of req) \<in> set (snd (new_weather_route w req)) \<and> ai_weather w (cityQ_of req) = None \<longrightarrow>
       fst (new_weather_route w req) = Inr \<lparr>status = 200, body = fallback_catch (getMonth w)\<rparr>)"
proof -
  let ?c = "cityQ_of req"
  have found: "(\<exists>rest. snd (new_weather_route w req) =
          FetchGeocode ?c # FetchCurrent (Finite la) (Finite lo) # rest) \<and>
       (\<forall>call \<in> set (snd (new_weather_route w req)).
          isWeatherCall call \<longrightarrow> callCoordinates call = Some (Finite la, Finite lo)) \<and>
       (fst (getWeatherData w (units_of req) (Finite la) (Finite lo)) = Some d \<longrightarrow>
          fst (new_weather_route w req) = Inr \<lparr>status = 200, body = d\<rparr>)"
    if "geocodeResults w ?c = r # rs" and "geometry_location r = Some (la, lo)"
  proof -
    from that have g: "geocodeFirst w ?c = Some (la, lo)"
      by (simp add: geocodeFirst_geocodeResults)
    note route = route_place_found [OF assms g]
    show ?thesis
    proof (cases rule: getWeatherData_cases [of w "units_of req" "Finite la" "Finite lo"])
      case (none calls)
      then show ?thesis by (auto simp: route)
    next
      case (some c f)
      then show ?thesis by (auto simp: route)
    qed
  qed
  have not_found: "snd (new_weather_route w req) = [FetchGeocode ?c, AiWeather ?c] \<and>
       (ai_weather w ?c = Some result \<longrightarrow>
          fst (new_weather_route w req) = Inr \<lparr>status = 200, body = result\<lparr>alerts := []\<rparr>\<rparr>)"
    if "geocodeResults w ?c = []"
  proof -
    from that have g: "geocodeFirst w ?c = None"
      by (simp add: geocodeFirst_geocodeResults)
    show ?thesis
      by (simp add: route_place_not_found [OF assms g])
  qed
  have caught: "fst (new_weather_route w req) = Inr \<lparr>status = 200, body = fallback_catch (getMonth w)\<rparr>"
    if "AiWeather ?c \<in> set (snd (new_weather_route w req))" and "ai_weather w ?c = None"
  proof (cases "geocodeFirst w ?c")
    case None
    then show ?thesis
      by (simp add: route_place_not_found [OF assms None] that(2))
  next
    case (Some p)
    obtain la' lo' where p: "p = (la', lo')" by (cases p)
    note route = route_place_found [OF assms Some [unfolded p]]
    show ?thesis
    proof (cases rule: getWeatherData_cases [of w "units_of req" "Finite la'" "Finite lo'"])
      case (none calls)
      then show ?thesis by (simp add: route that(2))
    next
      case (some c f)
      with that(1) show ?thesis by (simp add: route)
    qed
  qed
  show ?thesis
    using found not_found caught by blast
qed

theorem place_name_lookup_witness:
  "new_weather_route world_up query_city =
     (Inr \<lparr>status = 200, body = weatherData ''metric'' sample_current sample_forecast\<rparr>,
      [FetchGeocode ''Mumbai'', FetchCurrent (Finite 19) (Finite 73), FetchForecast (Finite 19) (Finite 73)]) \<and>
   new_weather_route world_no_place query_city =
     (Inr \<lparr>status = 200, body = (fallback_catch 5)\<lparr>alerts := []\<rparr>\<rparr>,
      [FetchGeocode ''Mumbai'', AiWeather ''Mumbai'']) \<and>
   new_weather_route world_down query_city =
     (Inr \<lparr>status = 200, body = fallback_catch 0\<rparr>, [FetchGeocode ''Mumbai'', AiWeather ''Mumbai''])"
proof -
  have u: "units_of query_city = ''metric''"
    by (simp add: units_of_def query_city_def or_string_def)
  have g1: "geocodeResults world_up ''Mumbai'' =
      \<lparr>geometry_location = Some (19, 73)\<rparr> # [\<lparr>geometry_location = Some (1, 2)\<rparr>]"
    by (simp add: geocodeResults_def world_up_def nullish_def)
  have g2: "geocodeResults world_no_place ''Mumbai'' = []"
    by (simp add: geocodeResults_def world_no_place_def nullish_def)
  have g3: "geocodeResults world_down ''Mumbai'' = []"
    by (simp add: geocodeResults_def world_down_def)
  have w1: "getWeatherData world_up ''metric'' (Finite 19) (Finite 73) =
      (Some (weatherData ''metric'' sample_current sample_forecast),
       [FetchCurrent (Finite 19) (Finite 73), FetchForecast (Finite 19) (Finite 73)])"
    by (simp add: getWeatherData_def world_up_def)
  have a2: "ai_weather world_no_place ''Mumbai'' = Some (fallback_catch 5)"
    by (simp add: world_no_place_def world_up_def)
  have a3: "ai_weather world_down ''Mumbai'' = None" "getMonth world_down = 0"
    by (simp_all add: world_down_def)
  have r1: "new_weather_route world_up query_city =
     (Inr \<lparr>status = 200, body = weatherData ''metric'' sample_current sample_forecast\<rparr>,
      [FetchGeocode ''Mumbai'', FetchCurrent (Finite 19) (Finite 73), FetchForecast (Finite 19) (Finite 73)])"
    using route_place_found [of world_up query_city 19 73]
    by (simp add: noKey_samples hasCoordinates_samples cityQ_samples geocodeFirst_geocodeResults g1 u w1)
  from place_name_lookup [OF noKey_samples(2) hasCoordinates_samples(4), of
      "\<lparr>geometry_location = Some (19, 73)\<rparr>" "[\<lparr>geometry_location = Some (1, 2)\<rparr>]" 19 73
      "weatherData ''metric'' sample_current sample_forecast" "fallback_catch 5"]
    place_name_lookup [OF noKey_samples(3) hasCoordinates_samples(4), of _ _ _ _ _ "fallback_catch 5"]
    place_name_lookup [OF noKey_samples(1) hasCoordinates_samples(4)]
  show ?thesis
    by (simp add: cityQ_samples g1 g2 g3 u w1 a2 a3 r1 prod_eq_iff)
qed

end
